theory Spec2Isabelle
  imports Complex_Main
begin

section \<open>Values, errors and builtins\<close>

text \<open>
  The evaluator works on what \<^verbatim>\<open>json.loads\<close> returns and on the question dictionary, both
  dynamically typed. A value is a \<open>json\<close>; a dictionary is an association list read with
  \<open>map_of\<close>. Python floats are idealised as exact reals: rounding error of the binary
  representation, NaN, infinities and overflow are outside the model. Strings are byte strings
  (UTF-8); \<open>lower\<close> and \<open>strip\<close> act on the ASCII range, which is all the keyword tests of
  the evaluator look at.
\<close>

datatype json =
    JNull
  | JBool bool
  | JInt int
  | JFloat real
  | JStr string
  | JList "json list"
  | JDict "(string \<times> json) list"

datatype py_error =
    ProviderError
  | JSONDecodeError
  | KeyError
  | AttributeError
  | TypeError
  | IndexError
  | ZeroDivisionError

definition bindE :: "py_error + 'a \<Rightarrow> ('a \<Rightarrow> py_error + 'b) \<Rightarrow> py_error + 'b" where
  "bindE m f = (case m of Inl e \<Rightarrow> Inl e | Inr v \<Rightarrow> f v)"

text \<open>Truth value of a Python object, as \<^verbatim>\<open>if x:\<close> tests it.\<close>

fun truthy :: "json \<Rightarrow> bool" where
  "truthy JNull = False"
| "truthy (JBool b) = b"
| "truthy (JInt i) = (i \<noteq> 0)"
| "truthy (JFloat r) = (r \<noteq> 0)"
| "truthy (JStr s) = (s \<noteq> [])"
| "truthy (JList xs) = (xs \<noteq> [])"
| "truthy (JDict kvs) = (kvs \<noteq> [])"

text \<open>\<^verbatim>\<open>d.get(k, default)\<close> on a dictionary.\<close>

definition dict_get :: "(string \<times> json) list \<Rightarrow> string \<Rightarrow> json \<Rightarrow> json" where
  "dict_get d k dflt = (case map_of d k of Some v \<Rightarrow> v | None \<Rightarrow> dflt)"

text \<open>\<^verbatim>\<open>x.get(k, default)\<close> on any value: only a dictionary has the method.\<close>

fun py_get :: "json \<Rightarrow> string \<Rightarrow> json \<Rightarrow> py_error + json" where
  "py_get (JDict d) k dflt = Inr (dict_get d k dflt)"
| "py_get _ k dflt = Inl AttributeError"

text \<open>\<^verbatim>\<open>x[k]\<close> with a string key: a missing key raises KeyError.\<close>

fun subscript :: "json \<Rightarrow> string \<Rightarrow> py_error + json" where
  "subscript (JDict d) k = (case map_of d k of Some v \<Rightarrow> Inr v | None \<Rightarrow> Inl KeyError)"
| "subscript _ k = Inl TypeError"

text \<open>A value used as a number; \<^verbatim>\<open>bool\<close> is a subclass of \<^verbatim>\<open>int\<close>.\<close>

fun to_num :: "json \<Rightarrow> py_error + real" where
  "to_num (JInt i) = Inr (of_int i)"
| "to_num (JFloat r) = Inr r"
| "to_num (JBool b) = Inr (if b then 1 else 0)"
| "to_num _ = Inl TypeError"

text \<open>
  \<^verbatim>\<open>round(x, n)\<close> on a float: the nearest multiple of \<open>10^-n\<close>, a tie going to the even
  multiple.
\<close>

definition py_round :: "real \<Rightarrow> nat \<Rightarrow> real" where
  "py_round x n =
     (let s = x * 10 ^ n; f = \<lfloor>s\<rfloor>; d = s - of_int f
      in of_int (if d < 1 / 2 then f else if 1 / 2 < d then f + 1
                 else if even f then f else f + 1) / 10 ^ n)"

subsection \<open>Strings\<close>

definition lower_char :: "char \<Rightarrow> char" where
  "lower_char c =
     (let n = of_char c :: nat in if 65 \<le> n \<and> n \<le> 90 then char_of (n + 32) else c)"

definition lower :: "string \<Rightarrow> string" where
  "lower s = map lower_char s"

definition is_space :: "char \<Rightarrow> bool" where
  "is_space c = (let n = of_char c :: nat in (9 \<le> n \<and> n \<le> 13) \<or> (28 \<le> n \<and> n \<le> 32))"

definition strip :: "string \<Rightarrow> string" where
  "strip s = rev (dropWhile is_space (rev (dropWhile is_space s)))"

definition startswith :: "string \<Rightarrow> string \<Rightarrow> bool" where
  "startswith s p = (take (length p) s = p)"

text \<open>\<^verbatim>\<open>sub in s\<close>: \<open>sub\<close> occurs in \<open>s\<close> as a contiguous piece.\<close>

fun contains :: "string \<Rightarrow> string \<Rightarrow> bool" where
  "contains sub [] = (sub = [])"
| "contains sub (c # cs) = (startswith (c # cs) sub \<or> contains sub cs)"

text \<open>\<^verbatim>\<open>sep.join(xs)\<close> on a list of strings.\<close>

fun join :: "string \<Rightarrow> string list \<Rightarrow> string" where
  "join sep [] = []"
| "join sep [x] = x"
| "join sep (x # y # ys) = x @ sep @ join sep (y # ys)"

text \<open>\<^verbatim>\<open>s.split(sep)\<close> for a non-empty separator (the evaluator splits at the code fence).\<close>

function split :: "string \<Rightarrow> string \<Rightarrow> string list" where
  "split sep [] = [[]]"
| "split sep (c # cs) =
     (if sep \<noteq> [] \<and> startswith (c # cs) sep
      then [] # split sep (drop (length sep) (c # cs))
      else (case split sep cs of [] \<Rightarrow> [[c]] | p # ps \<Rightarrow> (c # p) # ps))"
  by pat_completeness auto
termination
  by (relation "measure (\<lambda>(sep, s). length s)") (auto simp: neq_Nil_conv)

section \<open>Weight selection\<close>

text \<open>
  \<^verbatim>\<open>_get_weights\<close>: the dictionary with the four fixed keys is a record, and
  \<^verbatim>\<open>weights.update({...})\<close> a record update.
\<close>

record weights =
  intent :: int
  vocabulary :: int
  spelling :: int
  grammar :: int

definition get_weights :: "string \<Rightarrow> string \<Rightarrow> weights" where
  "get_weights difficulty0 context0 =
     (let difficulty = lower difficulty0;
          context = lower context0;
          weights = \<lparr>intent = 40, vocabulary = 25, spelling = 15, grammar = 20\<rparr>;
          weights =
            (if difficulty = ''easy''
             then weights\<lparr>spelling := 20, grammar := 25, vocabulary := 20, intent := 35\<rparr>
             else if difficulty = ''hard''
             then weights\<lparr>intent := 50, vocabulary := 25, spelling := 10, grammar := 15\<rparr>
             else weights);
          weights =
            (if contains ''comprehension'' context \<or> contains ''reading'' context
             then weights\<lparr>intent := 50, vocabulary := 25, spelling := 10, grammar := 15\<rparr>
             else if contains ''spelling'' context
             then weights\<lparr>spelling := 35, intent := 30\<rparr>
             else if contains ''grammar'' context
             then weights\<lparr>grammar := 35, intent := 30\<rparr>
             else weights)
      in weights)"

section \<open>Externals\<close>

text \<open>
  Two library functions are taken as parameters: \<^verbatim>\<open>json.loads\<close> (\<open>None\<close> stands for
  \<^verbatim>\<open>JSONDecodeError\<close>) and the builtin \<^verbatim>\<open>str\<close> that an f-string applies to a value that is
  not a string already. The answer of \<^verbatim>\<open>self.llm.invoke\<close> is an argument of
  \<open>evaluate_answer\<close>: the content of the response, or the error the call raised.
\<close>

record builtins =
  json_loads :: "string \<Rightarrow> json option"
  py_str :: "json \<Rightarrow> string"

definition fmt :: "builtins \<Rightarrow> json \<Rightarrow> string" where
  "fmt env v = (case v of JStr s \<Rightarrow> s | _ \<Rightarrow> py_str env v)"

section \<open>Parsing the response\<close>

definition fence :: string where
  "fence = ''```''"

text \<open>Lines 142 to 147: the content with a code fence and a language tag removed.\<close>

definition clean_content :: "string \<Rightarrow> py_error + string" where
  "clean_content raw =
     (let content = strip raw
      in if startswith content fence
         then (case split fence content of
                 _ # piece # _ \<Rightarrow>
                   Inr (strip (if startswith piece ''json'' then drop 4 piece else piece))
               | _ \<Rightarrow> Inl IndexError)
         else Inr content)"

definition fallback_result :: json where
  "fallback_result = JDict
     [(''intent'', JDict [(''score'', JInt 50), (''understood'', JBool True),
        (''concepts_right'', JList []), (''concepts_missed'', JList []),
        (''note'', JStr ''Parse error'')]),
      (''vocabulary'', JDict [(''score'', JInt 50), (''good_words'', JList []),
        (''improve'', JList []), (''note'', JStr ''Parse error'')]),
      (''spelling'', JDict [(''score'', JInt 50), (''errors'', JList []),
        (''phonetic_tries'', JList []), (''note'', JStr ''Parse error'')]),
      (''grammar'', JDict [(''score'', JInt 50), (''errors'', JList []),
        (''strengths'', JList []), (''note'', JStr ''Parse error'')])]"

text \<open>The body of the \<^verbatim>\<open>try\<close> block, lines 142 to 155.\<close>

definition try_parse ::
  "builtins \<Rightarrow> string \<Rightarrow> py_error + (json \<times> json \<times> json \<times> json \<times> json)" where
  "try_parse env raw =
     bindE (clean_content raw) (\<lambda>content.
     bindE (case json_loads env content of None \<Rightarrow> Inl JSONDecodeError | Some v \<Rightarrow> Inr v)
       (\<lambda>result.
     bindE (py_get result ''intent'' (JDict [])) (\<lambda>d.
     bindE (py_get d ''score'' (JInt 0)) (\<lambda>intent_score.
     bindE (py_get result ''vocabulary'' (JDict [])) (\<lambda>d.
     bindE (py_get d ''score'' (JInt 0)) (\<lambda>vocab_score.
     bindE (py_get result ''spelling'' (JDict [])) (\<lambda>d.
     bindE (py_get d ''score'' (JInt 0)) (\<lambda>spelling_score.
     bindE (py_get result ''grammar'' (JDict [])) (\<lambda>d.
     bindE (py_get d ''score'' (JInt 0)) (\<lambda>grammar_score.
     Inr (result, intent_score, vocab_score, spelling_score, grammar_score)))))))))))"

text \<open>
  The \<^verbatim>\<open>try\<close> statement with its handler, lines 140 to 165: \<^verbatim>\<open>JSONDecodeError\<close> and
  \<^verbatim>\<open>KeyError\<close> are caught, every other error leaves the function.
\<close>

definition parse_response ::
  "builtins \<Rightarrow> string \<Rightarrow> py_error + (json \<times> json \<times> json \<times> json \<times> json)" where
  "parse_response env raw =
     (case try_parse env raw of
        Inr v \<Rightarrow> Inr v
      | Inl e \<Rightarrow>
          if e = JSONDecodeError \<or> e = KeyError
          then Inr (fallback_result, JInt 50, JInt 50, JInt 50, JInt 50)
          else Inl e)"

section \<open>Feedback\<close>

text \<open>\<^verbatim>\<open>result[name].get(key, default)\<close>.\<close>

definition field :: "json \<Rightarrow> string \<Rightarrow> string \<Rightarrow> json \<Rightarrow> py_error + json" where
  "field result name key dflt = bindE (subscript result name) (\<lambda>d. py_get d key dflt)"

definition generate_remarks :: "real \<Rightarrow> json \<Rightarrow> py_error + string" where
  "generate_remarks percentage result =
     (let tone =
            (if percentage \<ge> 90 then ''Excellent work!''
             else if percentage \<ge> 75 then ''Great job!''
             else if percentage \<ge> 60 then ''Good effort!''
             else if percentage \<ge> 40 then ''Nice try!''
             else ''Keep practicing!'');
          remarks = [tone]
      in bindE (field result ''intent'' ''understood'' JNull) (\<lambda>understood.
         let remarks =
               (if truthy understood then remarks @ [''You understood the main idea.'']
                else remarks)
         in bindE (field result ''spelling'' ''phonetic_tries'' JNull) (\<lambda>tries.
            let remarks =
                  (if truthy tries then remarks @ [''Good phonetic spelling attempts!'']
                   else remarks)
            in Inr (join '' '' remarks))))"

text \<open>
  \<^verbatim>\<open>', '.join(missed[:2])\<close>: a list is cut to two elements, which must all be strings; a
  string is cut to two characters, which are joined; a dictionary cannot be sliced
  (\<^verbatim>\<open>TypeError\<close>, \<^verbatim>\<open>KeyError\<close> from Python 3.12 on) and nothing else can be subscripted.
\<close>

fun is_str :: "json \<Rightarrow> bool" where
  "is_str (JStr s) = True"
| "is_str _ = False"

fun str_of :: "json \<Rightarrow> string" where
  "str_of (JStr s) = s"
| "str_of _ = []"

fun join_first_two :: "json \<Rightarrow> py_error + string" where
  "join_first_two (JList xs) =
     (let ys = take 2 xs
      in if list_all is_str ys then Inr (join '', '' (map str_of ys)) else Inl TypeError)"
| "join_first_two (JStr s) = Inr (join '', '' (map (\<lambda>c. [c]) (take 2 s)))"
| "join_first_two _ = Inl TypeError"

text \<open>\<^verbatim>\<open>x[0]\<close>; the keys of a dictionary read from JSON are strings, so \<open>0\<close> is none of them.\<close>

fun index0 :: "json \<Rightarrow> py_error + json" where
  "index0 (JList xs) = (case xs of [] \<Rightarrow> Inl IndexError | x # _ \<Rightarrow> Inr x)"
| "index0 (JStr s) = (case s of [] \<Rightarrow> Inl IndexError | c # _ \<Rightarrow> Inr (JStr [c]))"
| "index0 (JDict d) = Inl KeyError"
| "index0 _ = Inl TypeError"

definition quote :: string where
  "quote = [CHR 0x27]"

text \<open>The arrow U+2192 of the spelling suggestion, in UTF-8.\<close>

definition arrow :: string where
  "arrow = [CHR 0xE2, CHR 0x86, CHR 0x92]"

definition generate_suggestions :: "builtins \<Rightarrow> json \<Rightarrow> py_error + string" where
  "generate_suggestions env result =
     (let suggestions = []
      in bindE (field result ''intent'' ''concepts_missed'' (JList [])) (\<lambda>missed.
         bindE (if truthy missed
                then bindE (join_first_two missed) (\<lambda>s.
                     Inr (suggestions @ [''Include: '' @ s]))
                else Inr suggestions) (\<lambda>suggestions.
         bindE (field result ''vocabulary'' ''improve'' (JList [])) (\<lambda>improve.
         bindE (if truthy improve
                then bindE (index0 improve) (\<lambda>tip.
                     Inr (suggestions @ [''Word tip: '' @ fmt env tip]))
                else Inr suggestions) (\<lambda>suggestions.
         bindE (field result ''spelling'' ''errors'' (JList [])) (\<lambda>errors.
         bindE (if truthy errors
                then bindE (index0 errors) (\<lambda>err.
                     bindE (py_get err ''word'' JNull) (\<lambda>word.
                     bindE (py_get err ''correct'' JNull) (\<lambda>correct.
                     Inr (suggestions @
                       [''Spelling: '' @ quote @ fmt env word @ quote @ '' '' @ arrow @ '' '' @
                        quote @ fmt env correct @ quote]))))
                else Inr suggestions) (\<lambda>suggestions.
         bindE (field result ''grammar'' ''errors'' (JList [])) (\<lambda>grammar_errors.
         bindE (if truthy grammar_errors
                then bindE (index0 grammar_errors) (\<lambda>err.
                     bindE (py_get err ''fix'' (JStr ''Check structure'')) (\<lambda>fix.
                     Inr (suggestions @ [''Grammar: '' @ fmt env fix])))
                else Inr suggestions) (\<lambda>suggestions.
         Inr (if suggestions \<noteq> [] then join '' | '' (take 3 suggestions)
              else ''Keep up the good work!''))))))))))"

section \<open>Aggregation\<close>

text \<open>Lines 171 to 176, 179 and 183 to 186, on the numbers the scores and weights stand for.\<close>

definition weighted_avg :: "real \<Rightarrow> real \<Rightarrow> real \<Rightarrow> real \<Rightarrow> weights \<Rightarrow> real" where
  "weighted_avg intent_score vocab_score spelling_score grammar_score w =
     ((intent_score * of_int (intent w)) +
      (vocab_score * of_int (vocabulary w)) +
      (spelling_score * of_int (spelling w)) +
      (grammar_score * of_int (grammar w))) / 100"

definition scale :: "real \<Rightarrow> real \<Rightarrow> real" where
  "scale wavg max_score = (wavg / 100) * max_score"

definition partial_score :: "real \<Rightarrow> int \<Rightarrow> real \<Rightarrow> real" where
  "partial_score score weight max_score =
     py_round ((score / 100) * (of_int weight / 100) * max_score) 2"

text \<open>Line 190: the only division by a value of the caller.\<close>

definition percentage_of :: "real \<Rightarrow> real \<Rightarrow> py_error + real" where
  "percentage_of final max_score =
     (if max_score = 0 then Inl ZeroDivisionError else Inr ((final / max_score) * 100))"

text \<open>\<^verbatim>\<open>self._get_weights(difficulty, context)\<close> on values: \<^verbatim>\<open>.lower()\<close> needs strings.\<close>

fun call_get_weights :: "json \<Rightarrow> json \<Rightarrow> py_error + weights" where
  "call_get_weights (JStr difficulty) (JStr context) = Inr (get_weights difficulty context)"
| "call_get_weights _ _ = Inl AttributeError"

section \<open>The evaluation\<close>

text \<open>
  The returned dictionary is a record; the key \<^verbatim>\<open>reasoning\<close> of the four analyses and the
  keys of \<^verbatim>\<open>partial_scores\<close> carry their dimension in the field name, and
  \<^verbatim>\<open>grammar_analysis["errors"]\<close> is \<open>grammar_errors\<close>.
\<close>

record partial_scores_dict =
  intent_part :: real
  vocabulary_part :: real
  spelling_part :: real
  grammar_part :: real

record intent_analysis_dict =
  intent_match_score :: json
  understood_concept :: json
  key_concepts_identified :: json
  key_concepts_missed :: json
  intent_reasoning :: json

record vocabulary_analysis_dict =
  vocabulary_score :: json
  appropriate_words :: json
  suggested_improvements :: json
  vocabulary_reasoning :: json

record spelling_analysis_dict =
  spelling_score :: json
  misspelled_words :: json
  phonetic_attempts :: json
  spelling_reasoning :: json

record grammar_analysis_dict =
  grammar_score :: json
  grammar_errors :: json
  strengths :: json
  grammar_reasoning :: json

record evaluation_result =
  question_id :: json
  final_score :: real
  max_score :: json
  percentage :: real
  partial_scores :: partial_scores_dict
  intent_analysis :: intent_analysis_dict
  vocabulary_analysis :: vocabulary_analysis_dict
  spelling_analysis :: spelling_analysis_dict
  grammar_analysis :: grammar_analysis_dict
  remarks :: string
  suggestions :: string

text \<open>Lines 195 to 228. Every lookup \<^verbatim>\<open>result[name]\<close> can raise \<^verbatim>\<open>KeyError\<close>.\<close>

definition build_result ::
  "json \<Rightarrow> json \<Rightarrow> real \<Rightarrow> real \<Rightarrow> partial_scores_dict \<Rightarrow> json \<Rightarrow>
   json \<Rightarrow> json \<Rightarrow> json \<Rightarrow> json \<Rightarrow> string \<Rightarrow> string \<Rightarrow> py_error + evaluation_result" where
  "build_result qid max_score0 final pct partial result
     intent_score vocab_score spelling_score0 grammar_score0 remarks0 suggestions0 =
     bindE (field result ''intent'' ''understood'' (JBool True)) (\<lambda>i1.
     bindE (field result ''intent'' ''concepts_right'' (JList [])) (\<lambda>i2.
     bindE (field result ''intent'' ''concepts_missed'' (JList [])) (\<lambda>i3.
     bindE (field result ''intent'' ''note'' (JStr [])) (\<lambda>i4.
     bindE (field result ''vocabulary'' ''good_words'' (JList [])) (\<lambda>v1.
     bindE (field result ''vocabulary'' ''improve'' (JList [])) (\<lambda>v2.
     bindE (field result ''vocabulary'' ''note'' (JStr [])) (\<lambda>v3.
     bindE (field result ''spelling'' ''errors'' (JList [])) (\<lambda>s1.
     bindE (field result ''spelling'' ''phonetic_tries'' (JList [])) (\<lambda>s2.
     bindE (field result ''spelling'' ''note'' (JStr [])) (\<lambda>s3.
     bindE (field result ''grammar'' ''errors'' (JList [])) (\<lambda>g1.
     bindE (field result ''grammar'' ''strengths'' (JList [])) (\<lambda>g2.
     bindE (field result ''grammar'' ''note'' (JStr [])) (\<lambda>g3.
     Inr \<lparr>question_id = qid,
          final_score = py_round final 2,
          max_score = max_score0,
          percentage = py_round pct 1,
          partial_scores = partial,
          intent_analysis = \<lparr>intent_match_score = intent_score, understood_concept = i1,
            key_concepts_identified = i2, key_concepts_missed = i3, intent_reasoning = i4\<rparr>,
          vocabulary_analysis = \<lparr>vocabulary_score = vocab_score, appropriate_words = v1,
            suggested_improvements = v2, vocabulary_reasoning = v3\<rparr>,
          spelling_analysis = \<lparr>spelling_score = spelling_score0, misspelled_words = s1,
            phonetic_attempts = s2, spelling_reasoning = s3\<rparr>,
          grammar_analysis = \<lparr>grammar_score = grammar_score0, grammar_errors = g1,
            strengths = g2, grammar_reasoning = g3\<rparr>,
          remarks = remarks0,
          suggestions = suggestions0\<rparr>)))))))))))))"

text \<open>
  \<^verbatim>\<open>evaluate_answer\<close>. The prompt is built from the question without any step that can
  raise and only feeds the call of the assessor; it is not part of the model.
\<close>

definition evaluate_answer ::
  "builtins \<Rightarrow> (string \<times> json) list \<Rightarrow> py_error + string \<Rightarrow> py_error + evaluation_result" where
  "evaluate_answer env question_data response =
     (let qid = dict_get question_data ''question_id'' (JStr []);
          question_text = dict_get question_data ''question_text'' (JStr [])
      in bindE (py_get (dict_get question_data ''correct_answer'' (JDict []))
                  ''option_text'' (JStr [])) (\<lambda>correct_answer.
         let context = dict_get question_data ''context'' (JStr []);
             difficulty = dict_get question_data ''difficulty'' (JStr ''Medium'');
             max_score0 = dict_get question_data ''max_score'' (JInt 1)
         in bindE response (\<lambda>raw.
            bindE (parse_response env raw)
              (\<lambda>(result, intent_score, vocab_score, spelling_score0, grammar_score0).
            bindE (call_get_weights difficulty context) (\<lambda>w.
            bindE (to_num intent_score) (\<lambda>si.
            bindE (to_num vocab_score) (\<lambda>sv.
            bindE (to_num spelling_score0) (\<lambda>ss.
            bindE (to_num grammar_score0) (\<lambda>sg.
            let wavg = weighted_avg si sv ss sg w
            in bindE (to_num max_score0) (\<lambda>m.
               let final = scale wavg m;
                   partial = \<lparr>intent_part = partial_score si (intent w) m,
                              vocabulary_part = partial_score sv (vocabulary w) m,
                              spelling_part = partial_score ss (spelling w) m,
                              grammar_part = partial_score sg (grammar w) m\<rparr>
               in bindE (percentage_of final m) (\<lambda>pct.
                  bindE (generate_remarks pct result) (\<lambda>remarks0.
                  bindE (generate_suggestions env result) (\<lambda>suggestions0.
                  build_result qid max_score0 final pct partial result
                    intent_score vocab_score spelling_score0 grammar_score0
                    remarks0 suggestions0)))))))))))))"

section \<open>The suggestion rules as the specification words them\<close>

text \<open>
  Four fragments in a fixed order, each for a source list that is not empty; the statement
  about \<open>generate_suggestions\<close> below compares the code with them.
\<close>

definition include_fragment :: "string list \<Rightarrow> string" where
  "include_fragment missed = ''Include: '' @ join '', '' (take 2 missed)"

definition word_tip_fragment :: "builtins \<Rightarrow> json list \<Rightarrow> string" where
  "word_tip_fragment env improve = ''Word tip: '' @ fmt env (hd improve)"

definition spelling_fragment :: "builtins \<Rightarrow> (string \<times> json) list list \<Rightarrow> string" where
  "spelling_fragment env errors =
     ''Spelling: '' @ quote @ fmt env (dict_get (hd errors) ''word'' JNull) @ quote @
     '' '' @ arrow @ '' '' @
     quote @ fmt env (dict_get (hd errors) ''correct'' JNull) @ quote"

definition grammar_fragment :: "builtins \<Rightarrow> (string \<times> json) list list \<Rightarrow> string" where
  "grammar_fragment env gerrors =
     ''Grammar: '' @ fmt env (dict_get (hd gerrors) ''fix'' (JStr ''Check structure''))"

definition qualifying_fragments ::
  "builtins \<Rightarrow> string list \<Rightarrow> json list \<Rightarrow> (string \<times> json) list list \<Rightarrow>
   (string \<times> json) list list \<Rightarrow> string list" where
  "qualifying_fragments env missed improve errors gerrors =
     (if missed \<noteq> [] then [include_fragment missed] else []) @
     (if improve \<noteq> [] then [word_tip_fragment env improve] else []) @
     (if errors \<noteq> [] then [spelling_fragment env errors] else []) @
     (if gerrors \<noteq> [] then [grammar_fragment env gerrors] else [])"

section \<open>Sample data\<close>

text \<open>
  Responses of an assessor with the value \<^verbatim>\<open>json.loads\<close> gives for each, and a parser that
  knows these texts and rejects every other. The concrete statements below run the evaluator
  on them.
\<close>

definition sample_text :: string where
  \<open>sample_text = ''{"intent": {"score": 80, "understood": true, "concepts_right": ["evaporation"], "concepts_missed": ["condensation", "rain", "runoff"], "note": "partly"}, "vocabulary": {"score": 70, "good_words": ["vapour"], "improve": ["say cycle"], "note": "fine"}, "spelling": {"score": 60, "errors": [{"word": "becaus", "correct": "because", "type": "phonetic"}], "phonetic_tries": ["becaus"], "note": "close"}, "grammar": {"score": 90, "errors": [{"type": "tense", "fix": "use the past tense"}], "strengths": [], "note": "good"}}''\<close>

definition sample_judgment :: json where
  "sample_judgment = JDict
     [(''intent'', JDict [(''score'', JInt 80), (''understood'', JBool True),
        (''concepts_right'', JList [JStr ''evaporation'']),
        (''concepts_missed'', JList [JStr ''condensation'', JStr ''rain'', JStr ''runoff'']),
        (''note'', JStr ''partly'')]),
      (''vocabulary'', JDict [(''score'', JInt 70), (''good_words'', JList [JStr ''vapour'']),
        (''improve'', JList [JStr ''say cycle'']), (''note'', JStr ''fine'')]),
      (''spelling'', JDict [(''score'', JInt 60),
        (''errors'', JList [JDict [(''word'', JStr ''becaus''), (''correct'', JStr ''because''),
           (''type'', JStr ''phonetic'')]]),
        (''phonetic_tries'', JList [JStr ''becaus'']), (''note'', JStr ''close'')]),
      (''grammar'', JDict [(''score'', JInt 90),
        (''errors'', JList [JDict [(''type'', JStr ''tense''),
           (''fix'', JStr ''use the past tense'')]]),
        (''strengths'', JList []), (''note'', JStr ''good'')])]"

definition scores_text :: string where
  \<open>scores_text = ''{"intent": {"score": 81}, "vocabulary": {"score": 70}, "spelling": {"score": 60}, "grammar": {"score": 90}}''\<close>

definition scores_judgment :: json where
  "scores_judgment = JDict
     [(''intent'', JDict [(''score'', JInt 81)]),
      (''vocabulary'', JDict [(''score'', JInt 70)]),
      (''spelling'', JDict [(''score'', JInt 60)]),
      (''grammar'', JDict [(''score'', JInt 90)])]"

definition high_text :: string where
  \<open>high_text = ''{"intent": {"score": 150}, "vocabulary": {"score": 100}, "spelling": {"score": 100}, "grammar": {"score": 100}}''\<close>

definition high_judgment :: json where
  "high_judgment = JDict
     [(''intent'', JDict [(''score'', JInt 150)]),
      (''vocabulary'', JDict [(''score'', JInt 100)]),
      (''spelling'', JDict [(''score'', JInt 100)]),
      (''grammar'', JDict [(''score'', JInt 100)])]"

definition no_intent_text :: string where
  \<open>no_intent_text = ''{"vocabulary": {"score": 70}, "spelling": {"score": 60}, "grammar": {"score": 90}}''\<close>

definition no_intent_judgment :: json where
  "no_intent_judgment = JDict
     [(''vocabulary'', JDict [(''score'', JInt 70)]),
      (''spelling'', JDict [(''score'', JInt 60)]),
      (''grammar'', JDict [(''score'', JInt 90)])]"

definition list_text :: string where
  "list_text = ''[1, 2]''"

definition list_value :: json where
  "list_value = JList [JInt 1, JInt 2]"

definition sample_question :: "(string \<times> json) list" where
  "sample_question =
     [(''question_id'', JStr ''q1''),
      (''question_text'', JStr ''Where does rain come from?''),
      (''correct_answer'', JDict [(''option_text'', JStr ''From clouds, by the water cycle.'')]),
      (''context'', JStr []),
      (''difficulty'', JStr ''Medium''),
      (''max_score'', JInt 10)]"

definition sample_env :: builtins where
  "sample_env =
     \<lparr>json_loads = map_of
        [(sample_text, sample_judgment), (scores_text, scores_judgment),
         (high_text, high_judgment), (no_intent_text, no_intent_judgment),
         (list_text, list_value)],
      py_str = (\<lambda>v. [])\<rparr>"

section \<open>Properties\<close>

subsection \<open>The error monad\<close>

lemma bindE_Inl [simp]: "bindE (Inl e) f = Inl e"
  by (simp add: bindE_def)

lemma bindE_Inr [simp]: "bindE (Inr v) f = f v"
  by (simp add: bindE_def)

lemma bindE_eq_Inr: "bindE m f = Inr r \<longleftrightarrow> (\<exists>v. m = Inr v \<and> f v = Inr r)"
  by (cases m) simp_all

subsection \<open>Weights\<close>

lemma lower_Nil [simp]: "lower [] = []"
  by (simp add: lower_def)

lemma get_weights_empty_context:
  "get_weights d [] =
     (if lower d = ''easy'' then \<lparr>intent = 35, vocabulary = 20, spelling = 20, grammar = 25\<rparr>
      else if lower d = ''hard'' then \<lparr>intent = 50, vocabulary = 25, spelling = 10, grammar = 15\<rparr>
      else \<lparr>intent = 40, vocabulary = 25, spelling = 15, grammar = 20\<rparr>)"
  by (simp add: get_weights_def)

lemma get_weights_by_context:
  "get_weights d c =
     (if contains ''comprehension'' (lower c) \<or> contains ''reading'' (lower c)
      then \<lparr>intent = 50, vocabulary = 25, spelling = 10, grammar = 15\<rparr>
      else if contains ''spelling'' (lower c)
      then (get_weights d [])\<lparr>spelling := 35, intent := 30\<rparr>
      else if contains ''grammar'' (lower c)
      then (get_weights d [])\<lparr>grammar := 35, intent := 30\<rparr>
      else get_weights d [])"
  by (simp add: get_weights_def Let_def)

text \<open>
  C4. The weights are a function of the two strings, read without regard to case. The difficulty
  rule comes first (\<open>get_weights d []\<close> is its outcome, no context rule matching the
  empty context); then the first context rule that matches, in the order comprehension or
  reading, spelling, grammar, overrides the weights it names, and none matching leaves the
  difficulty weights. "Hard" without context gives 50, 25, 10, 15; "easy" with the context
  "spelling practice" gives spelling 35, intent 30, vocabulary 20, grammar 25.
\<close>

theorem get_weights_rules:
  "get_weights ''Hard'' [] = \<lparr>intent = 50, vocabulary = 25, spelling = 10, grammar = 15\<rparr>
   \<and> get_weights ''easy'' ''spelling practice'' =
       \<lparr>intent = 30, vocabulary = 20, spelling = 35, grammar = 25\<rparr>
   \<and> (lower d = lower d' \<and> lower c = lower c' \<longrightarrow> get_weights d c = get_weights d' c')
   \<and> get_weights d [] =
       (if lower d = ''easy'' then \<lparr>intent = 35, vocabulary = 20, spelling = 20, grammar = 25\<rparr>
        else if lower d = ''hard''
        then \<lparr>intent = 50, vocabulary = 25, spelling = 10, grammar = 15\<rparr>
        else \<lparr>intent = 40, vocabulary = 25, spelling = 15, grammar = 20\<rparr>)
   \<and> (contains ''comprehension'' (lower c) \<or> contains ''reading'' (lower c) \<longrightarrow>
        get_weights d c = \<lparr>intent = 50, vocabulary = 25, spelling = 10, grammar = 15\<rparr>)
   \<and> (\<not> contains ''comprehension'' (lower c) \<and> \<not> contains ''reading'' (lower c) \<and>
        contains ''spelling'' (lower c) \<longrightarrow>
        get_weights d c = (get_weights d [])\<lparr>spelling := 35, intent := 30\<rparr>)
   \<and> (\<not> contains ''comprehension'' (lower c) \<and> \<not> contains ''reading'' (lower c) \<and>
        \<not> contains ''spelling'' (lower c) \<and> contains ''grammar'' (lower c) \<longrightarrow>
        get_weights d c = (get_weights d [])\<lparr>grammar := 35, intent := 30\<rparr>)
   \<and> (\<not> contains ''comprehension'' (lower c) \<and> \<not> contains ''reading'' (lower c) \<and>
        \<not> contains ''spelling'' (lower c) \<and> \<not> contains ''grammar'' (lower c) \<longrightarrow>
        get_weights d c = get_weights d [])"
proof -
  have hard: "get_weights ''Hard'' [] =
      \<lparr>intent = 50, vocabulary = 25, spelling = 10, grammar = 15\<rparr>"
    by code_simp
  have easy: "get_weights ''easy'' ''spelling practice'' =
      \<lparr>intent = 30, vocabulary = 20, spelling = 35, grammar = 25\<rparr>"
    by code_simp
  have ci: "lower d = lower d' \<and> lower c = lower c' \<longrightarrow> get_weights d c = get_weights d' c'"
    by (simp add: get_weights_def)
  note rest = get_weights_by_context [of d c]
  have r1: "contains ''comprehension'' (lower c) \<or> contains ''reading'' (lower c) \<longrightarrow>
        get_weights d c = \<lparr>intent = 50, vocabulary = 25, spelling = 10, grammar = 15\<rparr>"
    using rest by simp
  have r2: "\<not> contains ''comprehension'' (lower c) \<and> \<not> contains ''reading'' (lower c) \<and>
        contains ''spelling'' (lower c) \<longrightarrow>
        get_weights d c = (get_weights d [])\<lparr>spelling := 35, intent := 30\<rparr>"
    using rest by simp
  have r3: "\<not> contains ''comprehension'' (lower c) \<and> \<not> contains ''reading'' (lower c) \<and>
        \<not> contains ''spelling'' (lower c) \<and> contains ''grammar'' (lower c) \<longrightarrow>
        get_weights d c = (get_weights d [])\<lparr>grammar := 35, intent := 30\<rparr>"
    using rest by simp
  have r4: "\<not> contains ''comprehension'' (lower c) \<and> \<not> contains ''reading'' (lower c) \<and>
        \<not> contains ''spelling'' (lower c) \<and> \<not> contains ''grammar'' (lower c) \<longrightarrow>
        get_weights d c = get_weights d []"
    using rest by simp
  show ?thesis
    using hard easy ci get_weights_empty_context [of d] r1 r2 r3 r4 by blast
qed

theorem get_weights_rules_witness:
  "get_weights ''EASY'' ''My Grammar Test'' = get_weights ''easy'' ''my grammar test''
   \<and> get_weights ''Hard'' ''Reading and spelling'' =
       \<lparr>intent = 50, vocabulary = 25, spelling = 10, grammar = 15\<rparr>
   \<and> get_weights ''Hard'' ''Spelling and grammar'' =
       \<lparr>intent = 30, vocabulary = 25, spelling = 35, grammar = 15\<rparr>
   \<and> get_weights ''Easy'' ''grammar drill'' =
       \<lparr>intent = 30, vocabulary = 20, spelling = 20, grammar = 35\<rparr>
   \<and> get_weights ''Medium'' ''science'' =
       \<lparr>intent = 40, vocabulary = 25, spelling = 15, grammar = 20\<rparr>"
proof -
  have l1: "lower ''EASY'' = lower ''easy'' \<and> lower ''My Grammar Test'' = lower ''my grammar test''"
    by code_simp
  have l2: "contains ''comprehension'' (lower ''Reading and spelling'') \<or>
            contains ''reading'' (lower ''Reading and spelling'')"
    by code_simp
  have l3: "\<not> contains ''comprehension'' (lower ''Spelling and grammar'') \<and>
            \<not> contains ''reading'' (lower ''Spelling and grammar'') \<and>
            contains ''spelling'' (lower ''Spelling and grammar'')"
    by code_simp
  have l4: "\<not> contains ''comprehension'' (lower ''grammar drill'') \<and>
            \<not> contains ''reading'' (lower ''grammar drill'') \<and>
            \<not> contains ''spelling'' (lower ''grammar drill'') \<and>
            contains ''grammar'' (lower ''grammar drill'')"
    by code_simp
  have l5: "\<not> contains ''comprehension'' (lower ''science'') \<and>
            \<not> contains ''reading'' (lower ''science'') \<and>
            \<not> contains ''spelling'' (lower ''science'') \<and>
            \<not> contains ''grammar'' (lower ''science'')"
    by code_simp
  have e1: "lower ''Hard'' = ''hard''" "lower ''Easy'' = ''easy''" "lower ''Medium'' = ''medium''"
    by code_simp+
  show ?thesis
    using get_weights_rules [of "''EASY''" "''easy''" "''My Grammar Test''" "''my grammar test''"]
          get_weights_rules [of "''Hard''" _ "''Reading and spelling''"]
          get_weights_rules [of "''Hard''" _ "''Spelling and grammar''"]
          get_weights_rules [of "''Easy''" _ "''grammar drill''"]
          get_weights_rules [of "''Medium''" _ "''science''"]
          l1 l2 l3 l4 l5 e1
    by simp
qed

subsection \<open>What a returned evaluation holds\<close>

lemma call_get_weights_Inr:
  "call_get_weights dv cv = Inr w \<longleftrightarrow> (\<exists>d c. dv = JStr d \<and> cv = JStr c \<and> w = get_weights d c)"
  by (cases "(dv, cv)" rule: call_get_weights.cases) auto

lemma percentage_of_Inr:
  "percentage_of f m = Inr p \<longleftrightarrow> m \<noteq> 0 \<and> p = f / m * 100"
  by (auto simp: percentage_of_def)

lemma build_result_Inr:
  assumes "build_result qid ms final pct partial result vi vv vs vg rem sug = Inr r"
  shows "question_id r = qid \<and> final_score r = py_round final 2 \<and> max_score r = ms \<and>
         percentage r = py_round pct 1 \<and> partial_scores r = partial \<and>
         intent_match_score (intent_analysis r) = vi \<and>
         vocabulary_score (vocabulary_analysis r) = vv \<and>
         spelling_score (spelling_analysis r) = vs \<and>
         grammar_score (grammar_analysis r) = vg \<and>
         remarks r = rem \<and> suggestions r = sug"
  using assms by (auto simp: build_result_def bindE_eq_Inr)

lemma evaluate_answer_Inr:
  assumes "evaluate_answer env qd (Inr raw) = Inr r"
  obtains result vi vv vs vg si sv ss sg d c m where
    "parse_response env raw = Inr (result, vi, vv, vs, vg)"
    "to_num vi = Inr si" "to_num vv = Inr sv" "to_num vs = Inr ss" "to_num vg = Inr sg"
    "dict_get qd ''difficulty'' (JStr ''Medium'') = JStr d"
    "dict_get qd ''context'' (JStr []) = JStr c"
    "to_num (dict_get qd ''max_score'' (JInt 1)) = Inr m" "m \<noteq> 0"
    "final_score r = py_round (scale (weighted_avg si sv ss sg (get_weights d c)) m) 2"
    "percentage r = py_round (scale (weighted_avg si sv ss sg (get_weights d c)) m / m * 100) 1"
    "max_score r = dict_get qd ''max_score'' (JInt 1)"
    "intent_match_score (intent_analysis r) = vi"
    "vocabulary_score (vocabulary_analysis r) = vv"
    "spelling_score (spelling_analysis r) = vs"
    "grammar_score (grammar_analysis r) = vg"
proof -
  have "\<exists>result vi vv vs vg si sv ss sg d c m.
    parse_response env raw = Inr (result, vi, vv, vs, vg) \<and>
    to_num vi = Inr si \<and> to_num vv = Inr sv \<and> to_num vs = Inr ss \<and> to_num vg = Inr sg \<and>
    dict_get qd ''difficulty'' (JStr ''Medium'') = JStr d \<and>
    dict_get qd ''context'' (JStr []) = JStr c \<and>
    to_num (dict_get qd ''max_score'' (JInt 1)) = Inr m \<and> m \<noteq> 0 \<and>
    final_score r = py_round (scale (weighted_avg si sv ss sg (get_weights d c)) m) 2 \<and>
    percentage r = py_round (scale (weighted_avg si sv ss sg (get_weights d c)) m / m * 100) 1 \<and>
    max_score r = dict_get qd ''max_score'' (JInt 1) \<and>
    intent_match_score (intent_analysis r) = vi \<and>
    vocabulary_score (vocabulary_analysis r) = vv \<and>
    spelling_score (spelling_analysis r) = vs \<and>
    grammar_score (grammar_analysis r) = vg"
    using assms
    apply (simp add: evaluate_answer_def Let_def bindE_eq_Inr call_get_weights_Inr
        percentage_of_Inr split: prod.splits)
    apply (elim exE conjE)
    apply (drule build_result_Inr)
    apply simp
    done
  then show thesis
    using that by blast
qed

subsection \<open>Suggestions\<close>

lemma join_first_two_strings:
  "join_first_two (JList (map JStr xs)) = Inr (join '', '' (take 2 xs))"
proof -
  have a: "list_all is_str (take 2 (map JStr xs))"
    by (simp add: list_all_iff take_map)
  have b: "map str_of (take 2 (map JStr xs)) = take 2 xs"
    by (simp add: take_map comp_def)
  show ?thesis
    by (simp add: a b Let_def)
qed

lemma join_first_two_strings_Cons:
  "join_first_two (JList (JStr x # map JStr xs)) = Inr (join '', '' (take 2 (x # xs)))"
  using join_first_two_strings [of "x # xs"] by simp

lemma index0_Cons: "index0 (JList (x # xs)) = Inr x"
  by simp

text \<open>
  C9. The four rules run in the order concepts missed, vocabulary improvements, spelling errors,
  grammar errors; a rule adds its fragment only when its source list is not empty; the first
  three fragments that qualify are joined by " | ", so that the grammar fragment is dropped when
  all four qualify; and the result is "Keep up the good work!" when none qualifies.
\<close>

theorem generate_suggestions_fragments:
  assumes "field result ''intent'' ''concepts_missed'' (JList []) = Inr (JList (map JStr missed))"
    and "field result ''vocabulary'' ''improve'' (JList []) = Inr (JList improve)"
    and "field result ''spelling'' ''errors'' (JList []) = Inr (JList (map JDict errors))"
    and "field result ''grammar'' ''errors'' (JList []) = Inr (JList (map JDict gerrors))"
  shows "generate_suggestions env result =
           Inr (let fs = qualifying_fragments env missed improve errors gerrors
                in if fs = [] then ''Keep up the good work!'' else join '' | '' (take 3 fs))
         \<and> (missed \<noteq> [] \<and> improve \<noteq> [] \<and> errors \<noteq> [] \<and> gerrors \<noteq> [] \<longrightarrow>
              generate_suggestions env result =
                Inr (include_fragment missed @ '' | '' @ word_tip_fragment env improve @ '' | '' @
                     spelling_fragment env errors))
         \<and> (missed = [] \<and> improve = [] \<and> errors = [] \<and> gerrors = [] \<longrightarrow>
              generate_suggestions env result = Inr ''Keep up the good work!'')"
proof -
  have main: "generate_suggestions env result =
           Inr (let fs = qualifying_fragments env missed improve errors gerrors
                in if fs = [] then ''Keep up the good work!'' else join '' | '' (take 3 fs))"
    unfolding generate_suggestions_def qualifying_fragments_def Let_def
    by (cases missed; cases improve; cases errors; cases gerrors)
       (simp_all add: assms join_first_two_strings_Cons include_fragment_def word_tip_fragment_def
          spelling_fragment_def grammar_fragment_def del: join_first_two.simps)
  show ?thesis
    unfolding main by (simp add: qualifying_fragments_def)
qed

theorem generate_suggestions_fragments_witness:
  "generate_suggestions sample_env sample_judgment =
     Inr (''Include: condensation, rain | Word tip: say cycle | Spelling: '' @ quote @
          ''becaus'' @ quote @ '' '' @ arrow @ '' '' @ quote @ ''because'' @ quote)
   \<and> generate_suggestions sample_env scores_judgment = Inr ''Keep up the good work!''"
proof -
  have m: "field sample_judgment ''intent'' ''concepts_missed'' (JList []) =
             Inr (JList (map JStr [''condensation'', ''rain'', ''runoff'']))"
    by (simp add: sample_judgment_def field_def dict_get_def)
  have i: "field sample_judgment ''vocabulary'' ''improve'' (JList []) =
             Inr (JList [JStr ''say cycle''])"
    by (simp add: sample_judgment_def field_def dict_get_def)
  have e: "field sample_judgment ''spelling'' ''errors'' (JList []) =
             Inr (JList (map JDict [[(''word'', JStr ''becaus''), (''correct'', JStr ''because''),
               (''type'', JStr ''phonetic'')]]))"
    by (simp add: sample_judgment_def field_def dict_get_def)
  have g: "field sample_judgment ''grammar'' ''errors'' (JList []) =
             Inr (JList (map JDict [[(''type'', JStr ''tense''),
               (''fix'', JStr ''use the past tense'')]]))"
    by (simp add: sample_judgment_def field_def dict_get_def)
  have m0: "field scores_judgment ''intent'' ''concepts_missed'' (JList []) =
             Inr (JList (map JStr []))"
    by (simp add: scores_judgment_def field_def dict_get_def)
  have i0: "field scores_judgment ''vocabulary'' ''improve'' (JList []) = Inr (JList [])"
    by (simp add: scores_judgment_def field_def dict_get_def)
  have e0: "field scores_judgment ''spelling'' ''errors'' (JList []) =
             Inr (JList (map JDict []))"
    by (simp add: scores_judgment_def field_def dict_get_def)
  have g0: "field scores_judgment ''grammar'' ''errors'' (JList []) =
             Inr (JList (map JDict []))"
    by (simp add: scores_judgment_def field_def dict_get_def)
  have a: "generate_suggestions sample_env sample_judgment =
      Inr (include_fragment [''condensation'', ''rain'', ''runoff''] @ '' | '' @
           word_tip_fragment sample_env [JStr ''say cycle''] @ '' | '' @
           spelling_fragment sample_env [[(''word'', JStr ''becaus''),
             (''correct'', JStr ''because''), (''type'', JStr ''phonetic'')]])"
    using generate_suggestions_fragments [OF m i e g, of sample_env, THEN conjunct2, THEN conjunct1]
    by simp
  have b: "generate_suggestions sample_env scores_judgment = Inr ''Keep up the good work!''"
    using generate_suggestions_fragments [OF m0 i0 e0 g0, of sample_env, THEN conjunct2,
      THEN conjunct2]
    by simp
  show ?thesis
    unfolding a b
    by (simp add: include_fragment_def word_tip_fragment_def spelling_fragment_def
        fmt_def dict_get_def)
qed

subsection \<open>Bounds of the final score\<close>


lemma weights_nonneg:
  "0 \<le> intent (get_weights d c) \<and> 0 \<le> vocabulary (get_weights d c) \<and>
   0 \<le> spelling (get_weights d c) \<and> 0 \<le> grammar (get_weights d c)"
  by (simp add: get_weights_by_context [of d c] get_weights_empty_context)

lemma weighted_avg_same:
  "weighted_avg s s s s w = s * of_int (intent w + vocabulary w + spelling w + grammar w) / 100"
  by (simp add: weighted_avg_def algebra_simps)

text \<open>
  C6. With the four scores in [0,100] and a weight set (four non-negative weights) of sum 100,
  the final score computed at line 179 lies between 0 and the maximum score, itself not
  negative.
\<close>

theorem final_score_bounds:
  assumes "0 \<le> si" "si \<le> 100" "0 \<le> sv" "sv \<le> 100" "0 \<le> ss" "ss \<le> 100" "0 \<le> sg" "sg \<le> 100"
    and "0 \<le> intent w" "0 \<le> vocabulary w" "0 \<le> spelling w" "0 \<le> grammar w"
    and "intent w + vocabulary w + spelling w + grammar w = 100"
    and "0 \<le> m"
  shows "0 \<le> scale (weighted_avg si sv ss sg w) m \<and> scale (weighted_avg si sv ss sg w) m \<le> m"
proof -
  let ?a = "weighted_avg si sv ss sg w"
  have i: "0 \<le> si * of_int (intent w)" "si * of_int (intent w) \<le> 100 * of_int (intent w)"
    using assms by (simp_all add: mult_right_mono)
  have v: "0 \<le> sv * of_int (vocabulary w)" "sv * of_int (vocabulary w) \<le> 100 * of_int (vocabulary w)"
    using assms by (simp_all add: mult_right_mono)
  have s: "0 \<le> ss * of_int (spelling w)" "ss * of_int (spelling w) \<le> 100 * of_int (spelling w)"
    using assms by (simp_all add: mult_right_mono)
  have g: "0 \<le> sg * of_int (grammar w)" "sg * of_int (grammar w) \<le> 100 * of_int (grammar w)"
    using assms by (simp_all add: mult_right_mono)
  have tot: "(of_int (intent w) :: real) + of_int (vocabulary w) + of_int (spelling w) +
             of_int (grammar w) = 100"
    using assms(13) by (metis of_int_add of_int_numeral)
  have lo: "0 \<le> ?a"
    using i v s g by (simp add: weighted_avg_def)
  have hi: "?a \<le> 100"
    using i v s g tot by (simp add: weighted_avg_def)
  have q: "0 \<le> ?a / 100" "?a / 100 \<le> 1"
    using lo hi by simp_all
  have "0 \<le> ?a / 100 * m"
    using q(1) \<open>0 \<le> m\<close> by (rule mult_nonneg_nonneg)
  moreover have "?a / 100 * m \<le> 1 * m"
    using q(2) \<open>0 \<le> m\<close> by (rule mult_right_mono)
  ultimately show ?thesis
    unfolding scale_def by simp
qed

theorem final_score_bounds_witness:
  "0 \<le> scale (weighted_avg 80 70 60 90
            \<lparr>intent = 40, vocabulary = 25, spelling = 15, grammar = 20\<rparr>) 10
   \<and> scale (weighted_avg 80 70 60 90
            \<lparr>intent = 40, vocabulary = 25, spelling = 15, grammar = 20\<rparr>) 10 \<le> 10"
  using final_score_bounds [of 80 70 60 90
      "\<lparr>intent = 40, vocabulary = 25, spelling = 15, grammar = 20\<rparr>" 10]
  by simp

text \<open>
  C10. A context that contains "spelling" and neither "comprehension" nor "reading" gives, for
  every difficulty, weights of a sum above 100 (110 for "Medium"); with the four scores at 100
  the final score computed at line 179 is then above a positive maximum score.
\<close>

theorem spelling_context_overweights:
  assumes "contains ''spelling'' (lower c)"
    and "\<not> contains ''comprehension'' (lower c)" and "\<not> contains ''reading'' (lower c)"
  shows "100 < intent (get_weights d c) + vocabulary (get_weights d c) +
               spelling (get_weights d c) + grammar (get_weights d c)
         \<and> intent (get_weights ''Medium'' c) + vocabulary (get_weights ''Medium'' c) +
             spelling (get_weights ''Medium'' c) + grammar (get_weights ''Medium'' c) = 110
         \<and> (0 < m \<longrightarrow> m < scale (weighted_avg 100 100 100 100 (get_weights d c)) m)"
proof -
  let ?t = "intent (get_weights d c) + vocabulary (get_weights d c) +
            spelling (get_weights d c) + grammar (get_weights d c)"
  have w: "get_weights d c = (get_weights d [])\<lparr>spelling := 35, intent := 30\<rparr>" for d
    using assms by (simp add: get_weights_by_context [of d c])
  have t: "?t = 105 \<or> ?t = 110"
    by (simp add: w get_weights_empty_context)
  have med: "lower ''Medium'' = ''medium''"
    by code_simp
  have m110: "intent (get_weights ''Medium'' c) + vocabulary (get_weights ''Medium'' c) +
             spelling (get_weights ''Medium'' c) + grammar (get_weights ''Medium'' c) = 110"
    by (simp add: w get_weights_empty_context med)
  have sc: "scale (weighted_avg 100 100 100 100 (get_weights d c)) m = of_int ?t / 100 * m"
    by (simp add: scale_def weighted_avg_same)
  have one: "(1::real) < of_int ?t / 100"
    using t by auto
  have "m < of_int ?t / 100 * m" if "0 < m"
    using mult_strict_right_mono [OF one that] by simp
  then have c3: "0 < m \<longrightarrow> m < scale (weighted_avg 100 100 100 100 (get_weights d c)) m"
    unfolding sc by blast
  have c1: "100 < ?t"
    using t by auto
  show ?thesis
    using c1 m110 c3 by blast
qed

theorem spelling_context_overweights_witness:
  "100 < intent (get_weights ''Hard'' ''Spelling practice'') +
         vocabulary (get_weights ''Hard'' ''Spelling practice'') +
         spelling (get_weights ''Hard'' ''Spelling practice'') +
         grammar (get_weights ''Hard'' ''Spelling practice'')
   \<and> 10 < scale (weighted_avg 100 100 100 100 (get_weights ''Hard'' ''Spelling practice'')) 10"
proof -
  have a: "contains ''spelling'' (lower ''Spelling practice'')"
    by code_simp
  have b: "\<not> contains ''comprehension'' (lower ''Spelling practice'')"
    by code_simp
  have c: "\<not> contains ''reading'' (lower ''Spelling practice'')"
    by code_simp
  show ?thesis
    using spelling_context_overweights [OF a b c, of "''Hard''" 10] by simp
qed

subsection \<open>The scores of a returned evaluation\<close>






text \<open>
  C7, as the claim states it: every score that enters the aggregation would lie in [0,100]. An
  assessor that answers 150 for intent and 100 for the other dimensions has its 150 used as
  it is: the final score is 12 for the maximum score 10.
\<close>

theorem scores_in_range_counterexample:
  "parse_response sample_env high_text =
     Inr (high_judgment, JInt 150, JInt 100, JInt 100, JInt 100)
   \<and> map_sum id final_score
       (evaluate_answer sample_env [(''question_id'', JStr ''q1''), (''max_score'', JInt 10)]
          (Inr high_text)) = Inr 12"
proof -
  have a: "parse_response sample_env high_text =
     Inr (high_judgment, JInt 150, JInt 100, JInt 100, JInt 100)"
    by code_simp
  have b: "map_sum id final_score
       (evaluate_answer sample_env [(''question_id'', JStr ''q1''), (''max_score'', JInt 10)]
          (Inr high_text)) = Inr 12"
    by code_simp
  show ?thesis
    using a b by blast
qed

lemma parse_response_dict:
  assumes "clean_content raw = Inr content" and "json_loads env content = Some (JDict res)"
    and "dict_get res ''intent'' (JDict []) = JDict di"
    and "dict_get res ''vocabulary'' (JDict []) = JDict dv"
    and "dict_get res ''spelling'' (JDict []) = JDict ds"
    and "dict_get res ''grammar'' (JDict []) = JDict dg"
  shows "parse_response env raw =
           Inr (JDict res, dict_get di ''score'' (JInt 0), dict_get dv ''score'' (JInt 0),
                dict_get ds ''score'' (JInt 0), dict_get dg ''score'' (JInt 0))"
  using assms by (simp add: parse_response_def try_parse_def)

text \<open>
  C7, amended. For a response that parses to a dictionary whose dimensions, where present, are
  dictionaries, the score of a dimension that enters the aggregation is the value of its key
  "score" as the assessor gave it, and 0 when the dimension or the key is absent; the returned
  analyses report the same values. Nothing is clamped, so a score lies in [0,100] when the
  assessor's value does.
\<close>

theorem scores_taken_as_given:
  assumes "clean_content raw = Inr content" and "json_loads env content = Some (JDict res)"
    and "dict_get res ''intent'' (JDict []) = JDict di"
    and "dict_get res ''vocabulary'' (JDict []) = JDict dv"
    and "dict_get res ''spelling'' (JDict []) = JDict ds"
    and "dict_get res ''grammar'' (JDict []) = JDict dg"
  shows "parse_response env raw =
           Inr (JDict res, dict_get di ''score'' (JInt 0), dict_get dv ''score'' (JInt 0),
                dict_get ds ''score'' (JInt 0), dict_get dg ''score'' (JInt 0))
         \<and> (evaluate_answer env qd (Inr raw) = Inr r \<longrightarrow>
              intent_match_score (intent_analysis r) = dict_get di ''score'' (JInt 0) \<and>
              vocabulary_score (vocabulary_analysis r) = dict_get dv ''score'' (JInt 0) \<and>
              spelling_score (spelling_analysis r) = dict_get ds ''score'' (JInt 0) \<and>
              grammar_score (grammar_analysis r) = dict_get dg ''score'' (JInt 0))"
proof -
  note p = parse_response_dict [OF assms]
  have "intent_match_score (intent_analysis r) = dict_get di ''score'' (JInt 0) \<and>
        vocabulary_score (vocabulary_analysis r) = dict_get dv ''score'' (JInt 0) \<and>
        spelling_score (spelling_analysis r) = dict_get ds ''score'' (JInt 0) \<and>
        grammar_score (grammar_analysis r) = dict_get dg ''score'' (JInt 0)"
    if "evaluate_answer env qd (Inr raw) = Inr r"
  proof -
    from that obtain result' vi' vv' vs' vg' where o:
      "parse_response env raw = Inr (result', vi', vv', vs', vg')"
      "intent_match_score (intent_analysis r) = vi'"
      "vocabulary_score (vocabulary_analysis r) = vv'"
      "spelling_score (spelling_analysis r) = vs'"
      "grammar_score (grammar_analysis r) = vg'"
      by (rule evaluate_answer_Inr)
    show ?thesis
      using o p by simp
  qed
  then show ?thesis
    using p by blast
qed

theorem scores_taken_as_given_witness:
  "parse_response sample_env (''```json '' @ sample_text @ '' ```'') =
     Inr (sample_judgment, JInt 80, JInt 70, JInt 60, JInt 90)
   \<and> map_sum id (\<lambda>r. intent_match_score (intent_analysis r))
       (evaluate_answer sample_env sample_question (Inr (''```json '' @ sample_text @ '' ```''))) =
     Inr (JInt 80)"
proof -
  let ?raw = "''```json '' @ sample_text @ '' ```''"
  let ?e = "evaluate_answer sample_env sample_question (Inr ?raw)"
  have "\<not> isl ?e"
    by code_simp
  then have e: "?e = Inr (projr ?e)"
    by simp
  have cc: "clean_content ?raw = Inr sample_text"
    by code_simp
  have l: "json_loads sample_env sample_text =
      Some (JDict
     [(''intent'', JDict [(''score'', JInt 80), (''understood'', JBool True),
        (''concepts_right'', JList [JStr ''evaporation'']),
        (''concepts_missed'', JList [JStr ''condensation'', JStr ''rain'', JStr ''runoff'']),
        (''note'', JStr ''partly'')]),
      (''vocabulary'', JDict [(''score'', JInt 70), (''good_words'', JList [JStr ''vapour'']),
        (''improve'', JList [JStr ''say cycle'']), (''note'', JStr ''fine'')]),
      (''spelling'', JDict [(''score'', JInt 60),
        (''errors'', JList [JDict [(''word'', JStr ''becaus''), (''correct'', JStr ''because''),
           (''type'', JStr ''phonetic'')]]),
        (''phonetic_tries'', JList [JStr ''becaus'']), (''note'', JStr ''close'')]),
      (''grammar'', JDict [(''score'', JInt 90),
        (''errors'', JList [JDict [(''type'', JStr ''tense''),
           (''fix'', JStr ''use the past tense'')]]),
        (''strengths'', JList []), (''note'', JStr ''good'')])])"
    by code_simp
  note t = scores_taken_as_given [OF cc l, of _ _ _ _ sample_question "projr ?e"]
  have t': "parse_response sample_env ?raw =
     Inr (sample_judgment, JInt 80, JInt 70, JInt 60, JInt 90)
     \<and> intent_match_score (intent_analysis (projr ?e)) = JInt 80"
    using t e by (simp add: dict_get_def sample_judgment_def)
  then show ?thesis
    by (metis e map_sum.simps(2))
qed

text \<open>
  C2. The claim asks for a complete result when a whole dimension is absent from the parsed
  response. On the response without the key "intent" the score extraction of line 152
  defaults the score to 0, and the lookup \<^verbatim>\<open>result["intent"]\<close> of line 274 then raises
  \<^verbatim>\<open>KeyError\<close> outside the \<^verbatim>\<open>try\<close> statement.
\<close>

theorem missing_dimension_raises:
  "evaluate_answer sample_env sample_question (Inr no_intent_text) = Inl KeyError"
  by code_simp

subsection \<open>A response that is not the expected structure\<close>

text \<open>
  The fence removal always yields a content: a text that starts with the fence splits into at
  least two pieces.
\<close>

lemma split_not_Nil: "split sep s \<noteq> []"
  by (induction sep s rule: split.induct) (simp_all split: list.splits)

lemma clean_content_returns: "\<exists>content. clean_content raw = Inr content"
proof (cases "startswith (strip raw) fence")
  case False
  then show ?thesis
    by (simp add: clean_content_def)
next
  case True
  then obtain c cs where s: "strip raw = c # cs"
    by (cases "strip raw") (auto simp: startswith_def fence_def)
  obtain p ps where r: "split fence (drop (length fence) (c # cs)) = p # ps"
    using split_not_Nil [of fence "drop (length fence) (c # cs)"] by (auto simp: neq_Nil_conv)
  have "split fence (strip raw) = [] # p # ps"
    using True r unfolding s by (simp add: fence_def)
  then show ?thesis
    using True by (simp add: clean_content_def)
qed









subsection \<open>The maximum score\<close>

text \<open>
  C1, as the claim states it: a maximum score of 0 would be treated as 1 and a result
  returned. Line 84 replaces only an absent \<^verbatim>\<open>max_score\<close> by 1; a 0 reaches the division of
  line 190, which raises \<^verbatim>\<open>ZeroDivisionError\<close>.
\<close>

theorem max_score_zero_counterexample:
  "evaluate_answer sample_env [(''question_id'', JStr ''q1''), (''max_score'', JInt 0)]
     (Inr sample_text) = Inl ZeroDivisionError"
  by code_simp

text \<open>
  The division of line 190 is the only origin of \<^verbatim>\<open>ZeroDivisionError\<close>: no other step of the
  evaluation raises it.
\<close>

lemma bindE_eq_Inl: "bindE m f = Inl e \<longleftrightarrow> m = Inl e \<or> (\<exists>v. m = Inr v \<and> f v = Inl e)"
  by (cases m) simp_all

lemma py_get_no_zde: "py_get v k dflt \<noteq> Inl ZeroDivisionError"
  by (cases v) simp_all

lemma subscript_no_zde: "subscript v k \<noteq> Inl ZeroDivisionError"
  by (cases v) (simp_all split: option.splits)

lemma field_no_zde: "field v n k dflt \<noteq> Inl ZeroDivisionError"
  by (simp add: field_def bindE_eq_Inl py_get_no_zde subscript_no_zde)

lemma to_num_no_zde: "to_num v \<noteq> Inl ZeroDivisionError"
  by (cases v) simp_all

lemma call_get_weights_no_zde: "call_get_weights a b \<noteq> Inl ZeroDivisionError"
  by (cases "(a, b)" rule: call_get_weights.cases) simp_all

lemma clean_content_no_zde: "clean_content raw \<noteq> Inl ZeroDivisionError"
  by (simp add: clean_content_def Let_def split: list.splits)

lemma try_parse_no_zde: "try_parse env raw \<noteq> Inl ZeroDivisionError"
  by (simp add: try_parse_def bindE_eq_Inl py_get_no_zde clean_content_no_zde
      split: option.splits)

lemma parse_response_no_zde: "parse_response env raw \<noteq> Inl ZeroDivisionError"
  using try_parse_no_zde [of env raw]
  by (auto simp: parse_response_def split: sum.splits)

lemma join_first_two_no_zde: "join_first_two v \<noteq> Inl ZeroDivisionError"
  by (cases v) (simp_all add: Let_def)

lemma index0_no_zde: "index0 v \<noteq> Inl ZeroDivisionError"
  by (cases v) (simp_all split: list.splits)

lemma generate_remarks_no_zde: "generate_remarks p result \<noteq> Inl ZeroDivisionError"
  by (simp add: generate_remarks_def Let_def bindE_eq_Inl field_no_zde)

lemma generate_suggestions_no_zde: "generate_suggestions env result \<noteq> Inl ZeroDivisionError"
  by (simp add: generate_suggestions_def Let_def bindE_eq_Inl field_no_zde
      join_first_two_no_zde index0_no_zde py_get_no_zde)

lemma build_result_no_zde:
  "build_result qid ms f p partial result vi vv vs vg rem sug \<noteq> Inl ZeroDivisionError"
  by (simp add: build_result_def bindE_eq_Inl field_no_zde)

lemma evaluate_answer_no_zde:
  assumes "to_num (dict_get qd ''max_score'' (JInt 1)) = Inr m" and "m \<noteq> 0"
  shows "evaluate_answer env qd (Inr raw) \<noteq> Inl ZeroDivisionError"
  using assms
  by (simp add: evaluate_answer_def Let_def bindE_eq_Inl py_get_no_zde parse_response_no_zde
      call_get_weights_no_zde to_num_no_zde generate_remarks_no_zde
      generate_suggestions_no_zde build_result_no_zde percentage_of_def split: prod.splits)

lemma evaluate_answer_zero_raises:
  assumes "to_num (dict_get qd ''max_score'' (JInt 1)) = Inr 0"
  shows "evaluate_answer env qd resp \<noteq> Inr r"
proof
  assume a: "evaluate_answer env qd resp = Inr r"
  then obtain raw where "resp = Inr raw"
    by (cases resp) (auto simp: evaluate_answer_def Let_def bindE_eq_Inr)
  with a obtain m where "to_num (dict_get qd ''max_score'' (JInt 1)) = Inr m" "m \<noteq> 0"
    by (auto elim: evaluate_answer_Inr)
  with assms show False
    by simp
qed

lemma dict_get_append_default:
  assumes "map_of qd k0 = None"
  shows "dict_get (qd @ [(k0, v0)]) k dflt = (if k = k0 then v0 else dict_get qd k dflt)"
  using assms by (auto simp: dict_get_def map_add_def split: option.splits)

lemma evaluate_answer_default_max_score:
  assumes "map_of qd ''max_score'' = None"
  shows "evaluate_answer env (qd @ [(''max_score'', JInt 1)]) resp = evaluate_answer env qd resp"
proof -
  have a: "dict_get qd ''max_score'' (JInt 1) = JInt 1"
    using assms by (simp add: dict_get_def)
  show ?thesis
    unfolding evaluate_answer_def
    by (simp add: dict_get_append_default [OF assms] a)
qed

text \<open>
  C1, amended. A question without the key \<^verbatim>\<open>max_score\<close> is evaluated as the same question
  with the maximum score 1, and that evaluation does not raise \<^verbatim>\<open>ZeroDivisionError\<close>. A
  maximum score of 0 is not replaced: no result is returned for it, and when the question is
  well formed and the scores of the response are numbers the evaluation raises
  \<^verbatim>\<open>ZeroDivisionError\<close>.
\<close>

theorem max_score_absent_or_zero:
  "(map_of qd ''max_score'' = None \<longrightarrow>
      evaluate_answer env qd resp = evaluate_answer env (qd @ [(''max_score'', JInt 1)]) resp \<and>
      evaluate_answer env qd (Inr raw) \<noteq> Inl ZeroDivisionError)
   \<and> (to_num (dict_get qd ''max_score'' (JInt 1)) = Inr 0 \<longrightarrow>
        (\<forall>r. evaluate_answer env qd resp \<noteq> Inr r))
   \<and> (to_num (dict_get qd ''max_score'' (JInt 1)) = Inr 0 \<and>
        dict_get qd ''correct_answer'' (JDict []) = JDict ca \<and>
        dict_get qd ''difficulty'' (JStr ''Medium'') = JStr d \<and>
        dict_get qd ''context'' (JStr []) = JStr c \<and>
        parse_response env raw = Inr (result, vi, vv, vs, vg) \<and>
        to_num vi = Inr si \<and> to_num vv = Inr sv \<and> to_num vs = Inr ss \<and> to_num vg = Inr sg \<longrightarrow>
        evaluate_answer env qd (Inr raw) = Inl ZeroDivisionError)"
proof -
  have a: "evaluate_answer env qd resp = evaluate_answer env (qd @ [(''max_score'', JInt 1)]) resp \<and>
      evaluate_answer env qd (Inr raw) \<noteq> Inl ZeroDivisionError"
    if h: "map_of qd ''max_score'' = None"
  proof -
    have "to_num (dict_get qd ''max_score'' (JInt 1)) = Inr 1"
      using h by (simp add: dict_get_def)
    then have "evaluate_answer env qd (Inr raw) \<noteq> Inl ZeroDivisionError"
      by (rule evaluate_answer_no_zde) simp
    then show ?thesis
      using evaluate_answer_default_max_score [OF h, of env resp] by simp
  qed
  have b: "\<forall>r. evaluate_answer env qd resp \<noteq> Inr r"
    if "to_num (dict_get qd ''max_score'' (JInt 1)) = Inr 0"
    using evaluate_answer_zero_raises [OF that] by blast
  have c: "evaluate_answer env qd (Inr raw) = Inl ZeroDivisionError"
    if "to_num (dict_get qd ''max_score'' (JInt 1)) = Inr 0 \<and>
        dict_get qd ''correct_answer'' (JDict []) = JDict ca \<and>
        dict_get qd ''difficulty'' (JStr ''Medium'') = JStr d \<and>
        dict_get qd ''context'' (JStr []) = JStr c \<and>
        parse_response env raw = Inr (result, vi, vv, vs, vg) \<and>
        to_num vi = Inr si \<and> to_num vv = Inr sv \<and> to_num vs = Inr ss \<and> to_num vg = Inr sg"
    using that by (simp add: evaluate_answer_def Let_def percentage_of_def)
  show ?thesis
    using a b c by blast
qed

theorem max_score_absent_or_zero_witness:
  "evaluate_answer sample_env [(''question_id'', JStr ''q1'')] (Inr scores_text) =
     evaluate_answer sample_env ([(''question_id'', JStr ''q1'')] @ [(''max_score'', JInt 1)])
       (Inr scores_text)
   \<and> evaluate_answer sample_env [(''question_id'', JStr ''q1'')] (Inr scores_text) \<noteq>
       Inl ZeroDivisionError
   \<and> (\<forall>r. evaluate_answer sample_env [(''question_id'', JStr ''q1''), (''max_score'', JInt 0)]
       (Inr scores_text) \<noteq> Inr r)
   \<and> evaluate_answer sample_env [(''question_id'', JStr ''q1''), (''max_score'', JInt 0)]
       (Inr scores_text) = Inl ZeroDivisionError"
proof -
  let ?q = "[(''question_id'', JStr ''q1'')]"
  let ?z = "[(''question_id'', JStr ''q1''), (''max_score'', JInt 0)]"
  have h1: "map_of ?q ''max_score'' = None"
    by code_simp
  have h2: "to_num (dict_get ?z ''max_score'' (JInt 1)) = Inr 0"
    by (simp add: dict_get_def)
  have h3: "dict_get ?z ''correct_answer'' (JDict []) = JDict []"
    "dict_get ?z ''difficulty'' (JStr ''Medium'') = JStr ''Medium''"
    "dict_get ?z ''context'' (JStr []) = JStr []"
    by (simp_all add: dict_get_def)
  have p: "parse_response sample_env scores_text =
      Inr (scores_judgment, JInt 81, JInt 70, JInt 60, JInt 90)"
    by code_simp
  have n: "to_num (JInt 81) = Inr 81" "to_num (JInt 70) = Inr 70" "to_num (JInt 60) = Inr 60"
    "to_num (JInt 90) = Inr 90"
    by simp_all
  note t1 = max_score_absent_or_zero [of ?q sample_env "Inr scores_text" scores_text,
      THEN conjunct1, rule_format, OF h1]
  note t2 = max_score_absent_or_zero [of ?z sample_env "Inr scores_text",
      THEN conjunct2, THEN conjunct1, rule_format, OF h2]
  note t3 = max_score_absent_or_zero [of ?z sample_env "Inr scores_text" scores_text "[]"
      "''Medium''" "[]" scores_judgment "JInt 81" "JInt 70" "JInt 60" "JInt 90" 81 70 60 90,
      THEN conjunct2, THEN conjunct2, rule_format]
  have t3': "evaluate_answer sample_env ?z (Inr scores_text) = Inl ZeroDivisionError"
    using h2 h3 p n by (intro t3) simp
  show ?thesis
    using t1 t2 t3' by blast
qed

end
